theory Spec2Isabelle
  imports Main "HOL-Library.Word" "HOL-Library.Finite_Map"
begin

section \<open>The WebGL replay engine of webgl-main.cc\<close>

text \<open>
  A shallow embedding of \<^verbatim>\<open>src/bin/cpp_src/webgl-main.cc\<close> and
  \<^verbatim>\<open>webgl-shared.h\<close>. Member fields keep their names; Isabelle rejects a name
  that ends in an underscore, so \<^verbatim>\<open>width_\<close> is written \<open>width_'\<close>. The
  C++ \<^verbatim>\<open>int\<close> is \<open>int\<close> (no arithmetic on it can overflow here: handles and
  dimensions are only compared and stored, the step cursor only counts up to the step
  count), \<^verbatim>\<open>GLuint\<close> is \<open>32 word\<close>, \<^verbatim>\<open>size_t\<close> is \<open>64 word\<close>, so
  that \<open>offset + length\<close> wraps as it does in the program, and \<^verbatim>\<open>uint8_t\<close>
  is \<open>8 word\<close>.

  Calls into SDL and OpenGL are recorded as a list of effects in call order. A window and
  its GL context are identified by the handle of the \<^verbatim>\<open>CanvasContext\<close> that
  owns them. \<^verbatim>\<open>printf\<close>, \<^verbatim>\<open>CHECK_SDL\<close> and \<^verbatim>\<open>CHECK_GL\<close> only print
  and are left out.
\<close>

subsection \<open>Native calls\<close>

datatype effect =
    Invoke int
  | SDL_GL_MakeCurrent int
  | SDL_SetWindowSize int int int
  | glViewport int int int int
  | SDL_GL_SwapWindow int
  | SDL_Delay nat
  | glGetString string
  | SDL_GL_ExtensionSupported string
  | SDL_GL_GetProcAddress string

text \<open>
  What can go wrong outside the language: \<^verbatim>\<open>steps_[i]\<close> read outside the
  array, the write through \<^verbatim>\<open>last_slash\<close> when \<^verbatim>\<open>strrchr\<close> found no
  separator, and \<^verbatim>\<open>strcat\<close> past the 2048 bytes of \<^verbatim>\<open>file_path\<close>.
\<close>

datatype fault = StepOutOfRange int | NullPointerWrite | BufferOverflow

subsection \<open>Extension bootstrap\<close>

text \<open>
  The globals of lines 42-45; a function pointer is its address, 0 the null pointer.
  The backend answers the capability query and the symbol lookups.
\<close>

record globals =
  extensions_initialized :: bool
  glDrawArraysInstanced :: nat
  glDrawElementsInstanced :: nat
  glVertexAttribDivisor :: nat

record backend =
  ExtensionSupported :: "string \<Rightarrow> bool"
  GetProcAddress :: "string \<Rightarrow> nat"

text \<open>A call either returns or ends the process through \<^verbatim>\<open>exit\<close>.\<close>

datatype 'a process = Returns "effect list" 'a | Exit "effect list" int

definition InitializeExtensions :: "backend \<Rightarrow> globals \<Rightarrow> globals process" where
  "InitializeExtensions b g =
     (if extensions_initialized g then Returns [] g
      else
        let g1 = g\<lparr>extensions_initialized := True\<rparr>;
            queries = [glGetString ''GL_VERSION'', glGetString ''GL_EXTENSIONS'',
                       SDL_GL_ExtensionSupported ''GL_ARB_instanced_arrays'']
        in if \<not> ExtensionSupported b ''GL_ARB_instanced_arrays'' then Exit queries 1
           else Returns
             (queries @ [SDL_GL_GetProcAddress ''glDrawArraysInstancedARB'',
                         SDL_GL_GetProcAddress ''glDrawElementsInstancedARB'',
                         SDL_GL_GetProcAddress ''glVertexAttribDivisorARB''])
             (g1\<lparr>glDrawArraysInstanced := GetProcAddress b ''glDrawArraysInstancedARB'',
                 glDrawElementsInstanced := GetProcAddress b ''glDrawElementsInstancedARB'',
                 glVertexAttribDivisor := GetProcAddress b ''glVertexAttribDivisorARB''\<rparr>))"

text \<open>
  \<open>n\<close> calls of \<^verbatim>\<open>InitializeExtensions\<close> one after the other in one process, the
  effects appended; nothing runs after an \<^verbatim>\<open>exit\<close>.
\<close>

fun InitializeExtensions_calls :: "backend \<Rightarrow> nat \<Rightarrow> globals \<Rightarrow> globals process" where
  "InitializeExtensions_calls b 0 g = Returns [] g"
| "InitializeExtensions_calls b (Suc n) g =
     (case InitializeExtensions b g of
        Exit es code \<Rightarrow> Exit es code
      | Returns es g1 \<Rightarrow>
          (case InitializeExtensions_calls b n g1 of
             Exit es2 code \<Rightarrow> Exit (es @ es2) code
           | Returns es2 g2 \<Rightarrow> Returns (es @ es2) g2))"

subsection \<open>CanvasContext\<close>

text \<open>
  \<^verbatim>\<open>object_map_\<close> is an \<^verbatim>\<open>unordered_map<int, GLuint>\<close>: a finite map.
  \<^verbatim>\<open>window_title_\<close>, \<^verbatim>\<open>window_\<close> and \<^verbatim>\<open>gl_\<close> are set by the
  constructor and never change; the handle stands for them in the effects.
\<close>

record CanvasContext =
  handle_' :: int
  width_' :: int
  height_' :: int
  object_map_' :: "(int, 32 word) fmap"

definition MakeCurrent :: "CanvasContext \<Rightarrow> int \<Rightarrow> int \<Rightarrow> effect list \<times> CanvasContext" where
  "MakeCurrent c width height =
     (if width \<noteq> -1 \<and> height \<noteq> -1 then
        (if width \<noteq> width_' c \<or> height \<noteq> height_' c then
           ([SDL_GL_MakeCurrent (handle_' c),
             SDL_SetWindowSize (handle_' c) width height,
             glViewport 0 0 width height],
            c\<lparr>width_' := width, height_' := height\<rparr>)
         else ([SDL_GL_MakeCurrent (handle_' c)], c))
      else ([SDL_GL_MakeCurrent (handle_' c)], c))"

definition Swap :: "CanvasContext \<Rightarrow> effect list" where
  "Swap c = [SDL_GL_MakeCurrent (handle_' c), SDL_GL_SwapWindow (handle_' c)]"

text \<open>
  \<^verbatim>\<open>object_map_[handle]\<close> on an \<^verbatim>\<open>unordered_map\<close> inserts a value-initialised
  entry (0) when the key is absent and returns it, so \<^verbatim>\<open>GetObject\<close> returns the
  context as well.
\<close>

definition GetObject :: "CanvasContext \<Rightarrow> int \<Rightarrow> 32 word \<times> CanvasContext" where
  "GetObject c handle =
     (if handle \<noteq> 0 then
        (case fmlookup (object_map_' c) handle of
           Some v \<Rightarrow> (v, c)
         | None \<Rightarrow> (0, c\<lparr>object_map_' := fmupd handle 0 (object_map_' c)\<rparr>))
      else (0, c))"

definition SetObject :: "CanvasContext \<Rightarrow> int \<Rightarrow> 32 word \<Rightarrow> CanvasContext" where
  "SetObject c handle id' = c\<lparr>object_map_' := fmupd handle id' (object_map_' c)\<rparr>"

text \<open>A call of one of the two, as a recorded operation issues them on a context.\<close>

datatype object_call = Get int | Set int "32 word"

fun apply_call :: "CanvasContext \<Rightarrow> object_call \<Rightarrow> CanvasContext" where
  "apply_call c (Get handle) = snd (GetObject c handle)"
| "apply_call c (Set handle id') = SetObject c handle id'"

subsection \<open>Replay\<close>

text \<open>
  \<^verbatim>\<open>bin_data_\<close> is \<open>None\<close> for the null pointer and the bytes of the buffer
  otherwise. \<^verbatim>\<open>steps_\<close> points to an array outside the object and is passed to
  the functions that read it; a step receives the \<^verbatim>\<open>Replay\<close> and may change it.
  \<^verbatim>\<open>context_map_\<close> is used by \<^verbatim>\<open>CreateContext\<close> and
  \<^verbatim>\<open>MakeContextCurrent\<close> only, which are not embedded. The constructor sets the
  fields; its calls \<^verbatim>\<open>SDL_Init\<close> and \<^verbatim>\<open>SDL_GetDesktopDisplayMode\<close> are not
  recorded.
\<close>

record Replay =
  trace_name_' :: string
  bin_name_' :: string
  step_count_' :: int
  step_index_' :: int
  bin_data_' :: "8 word list option"
  bin_data_length_' :: "64 word"
  contexts_' :: "CanvasContext list"

type_synonym StepFunction = "Replay \<Rightarrow> Replay"

definition Replay_ctor :: "string \<Rightarrow> string \<Rightarrow> int \<Rightarrow> Replay" where
  "Replay_ctor trace_name bin_name step_count =
     \<lparr>trace_name_' = trace_name, bin_name_' = bin_name,
      step_count_' = step_count, step_index_' = 0,
      bin_data_' = None, bin_data_length_' = 0, contexts_' = []\<rparr>"

subsubsection \<open>LoadResources\<close>

text \<open>
  The branch for neither \<^verbatim>\<open>WIN32\<close> nor \<^verbatim>\<open>__APPLE__\<close> (lines 184-193), the one
  that checks the path lookup. The environment gives the result of
  \<^verbatim>\<open>readlink("/proc/self/exe")\<close> (\<open>None\<close> for -1), of \<^verbatim>\<open>fopen\<close> (the bytes of
  the file, \<open>None\<close> when it cannot be opened) and of \<^verbatim>\<open>malloc\<close> (whether an
  allocation of that size succeeds). The first return is \<^verbatim>\<open>return 1\<close> in a function
  whose result type is \<^verbatim>\<open>bool\<close>: the caller receives \<^verbatim>\<open>true\<close>.
\<close>

record environment =
  readlink_proc_self_exe :: "string option"
  fopen :: "string \<Rightarrow> 8 word list option"
  malloc :: "nat \<Rightarrow> bool"

text \<open>The index of the last occurrence of a character, \<open>None\<close> for a null result.\<close>

fun strrchr :: "string \<Rightarrow> char \<Rightarrow> nat option" where
  "strrchr [] c = None"
| "strrchr (x # xs) c =
     (case strrchr xs c of
        Some i \<Rightarrow> Some (Suc i)
      | None \<Rightarrow> if x = c then Some 0 else None)"

text \<open>
  Lines 194-199: cut \<^verbatim>\<open>file_path\<close> after its last separator and append the name
  of the resource file. \<open>exe\<close> is what \<^verbatim>\<open>readlink\<close> stored, at most 2047
  characters of it.
\<close>

definition bin_file_path :: "string \<Rightarrow> string \<Rightarrow> fault + string" where
  "bin_file_path exe bin_name =
     (case strrchr (take 2047 exe) CHR ''/'' of
        None \<Rightarrow> Inl NullPointerWrite
      | Some last_slash \<Rightarrow>
          let dir = take (Suc last_slash) (take 2047 exe) in
          if 2048 \<le> length dir + length bin_name then Inl BufferOverflow
          else Inr (dir @ bin_name))"

definition LoadResources :: "environment \<Rightarrow> Replay \<Rightarrow> fault + (bool \<times> Replay)" where
  "LoadResources env r =
     (case readlink_proc_self_exe env of
        None \<Rightarrow> Inr (True, r)
      | Some exe \<Rightarrow>
          (case bin_file_path exe (bin_name_' r) of
             Inl f \<Rightarrow> Inl f
           | Inr file_path \<Rightarrow>
               (case fopen env file_path of
                  None \<Rightarrow> Inr (False, r)
                | Some file \<Rightarrow>
                    let r1 = r\<lparr>bin_data_length_' := of_nat (length file)\<rparr> in
                    if \<not> malloc env (unat (bin_data_length_' r1))
                    then Inr (False, r1\<lparr>bin_data_' := None\<rparr>)
                    else Inr (True,
                      r1\<lparr>bin_data_' := Some (take (unat (bin_data_length_' r1)) file)\<rparr>))))"

subsubsection \<open>GetBinData\<close>

text \<open>
  A pointer returned by \<^verbatim>\<open>GetBinData\<close>: null, \<open>n\<close> bytes after the start of the
  buffer \<^verbatim>\<open>bin_data_\<close> points to, or \<open>n\<close> bytes after a null \<^verbatim>\<open>bin_data_\<close>.
\<close>

datatype pointer = NULL | BinData nat | NullPlus nat

definition GetBinData :: "Replay \<Rightarrow> 64 word \<Rightarrow> 64 word \<Rightarrow> pointer" where
  "GetBinData r offset length' =
     (if offset + length' > bin_data_length_' r then NULL
      else
        (case bin_data_' r of
           None \<Rightarrow> if offset = 0 then NULL else NullPlus (unat offset)
         | Some buf \<Rightarrow> BinData (unat offset)))"

text \<open>
  What a caller reads through a returned pointer: \<open>n\<close> bytes of the buffer from the
  position pointed to, \<open>None\<close> when the pointer is not into the buffer or the range is
  not all inside it.
\<close>

definition read_bytes :: "Replay \<Rightarrow> pointer \<Rightarrow> nat \<Rightarrow> 8 word list option" where
  "read_bytes r p n =
     (case (p, bin_data_' r) of
        (BinData k, Some buf) \<Rightarrow>
          if k + n \<le> length buf then Some (take n (drop k buf)) else None
      | _ \<Rightarrow> None)"

subsubsection \<open>Run and IssueNextStep\<close>

text \<open>
  The four arms of the switch on \<^verbatim>\<open>event.type\<close> are the constructors; every other
  type is \<open>SDL_OTHER\<close>. \<^verbatim>\<open>event.window.event\<close> is a number, compared with 14.
\<close>

datatype SDL_EventType = SDL_WINDOWEVENT_CLOSE | SDL_QUIT | SDL_WINDOWEVENT | SDL_OTHER nat

record SDL_Event =
  event_type :: SDL_EventType
  window_event :: nat

text \<open>The body of the inner loop (lines 236-253) on one polled event.\<close>

definition handle_event :: "bool \<Rightarrow> SDL_Event \<Rightarrow> bool" where
  "handle_event running event =
     (case event_type event of
        SDL_WINDOWEVENT_CLOSE \<Rightarrow> False
      | SDL_QUIT \<Rightarrow> False
      | SDL_WINDOWEVENT \<Rightarrow> (if window_event event = 14 then False else running)
      | SDL_OTHER t \<Rightarrow> running)"

text \<open>\<^verbatim>\<open>while (SDL_PollEvent(&event))\<close> over the events pending at that moment.\<close>

definition PollEvents :: "bool \<Rightarrow> SDL_Event list \<Rightarrow> bool" where
  "PollEvents running events = foldl handle_event running events"

definition IssueNextStep ::
  "StepFunction list \<Rightarrow> Replay \<Rightarrow> fault + (effect list \<times> bool \<times> Replay)" where
  "IssueNextStep steps r =
     (let i = step_index_' r;
          r1 = r\<lparr>step_index_' := i + 1\<rparr>
      in if 0 \<le> i \<and> i < int (length steps) then
           (let r2 = (steps ! nat i) r1
            in Inr ([Invoke i], step_index_' r2 < step_count_' r2, r2))
         else Inl (StepOutOfRange i))"

text \<open>
  The outer loop of \<^verbatim>\<open>Run\<close>. \<open>pending\<close> holds, for each iteration, the events
  that the event queue has at its start; when it is used up the queue stays empty. The
  loop need not end (a step may move the cursor back), so it is a partial function:
  \<open>None\<close> is a run that never returns. The result is the value returned, the effects in
  order and the final object.
\<close>

partial_function (option) Run_loop ::
  "StepFunction list \<Rightarrow> SDL_Event list list \<Rightarrow> bool \<Rightarrow> effect list \<Rightarrow> Replay
     \<Rightarrow> (fault + (int \<times> effect list \<times> Replay)) option" where
  "Run_loop steps pending running trace r =
     (if \<not> running then Some (Inr (0, trace, r))
      else if \<not> PollEvents running (case pending of [] \<Rightarrow> [] | events # rest \<Rightarrow> events)
      then Some (Inr (0, trace, r))
      else
        (case IssueNextStep steps r of
           Inl f \<Rightarrow> Some (Inl f)
         | Inr (es, running', r') \<Rightarrow>
             Run_loop steps (tl pending) running'
               (trace @ es @ concat (map Swap (contexts_' r')) @ [SDL_Delay 16]) r'))"

definition Run ::
  "StepFunction list \<Rightarrow> SDL_Event list list \<Rightarrow> Replay
     \<Rightarrow> (fault + (int \<times> effect list \<times> Replay)) option" where
  "Run steps pending r = Run_loop steps pending True [] r"

subsubsection \<open>main\<close>

text \<open>The exit code of the process, or the fault it runs into.\<close>

definition main ::
  "environment \<Rightarrow> string \<Rightarrow> string \<Rightarrow> StepFunction list \<Rightarrow> int \<Rightarrow> SDL_Event list list
     \<Rightarrow> (fault + int) option" where
  "main env trace_name bin_name steps step_count pending =
     (let replay = Replay_ctor trace_name bin_name step_count
      in case LoadResources env replay of
           Inl f \<Rightarrow> Some (Inl f)
         | Inr (loaded, replay') \<Rightarrow>
             if \<not> loaded then Some (Inr 1)
             else
               (case Run steps pending replay' of
                  None \<Rightarrow> None
                | Some (Inl f) \<Rightarrow> Some (Inl f)
                | Some (Inr (code, trace, replay'')) \<Rightarrow> Some (Inr code)))"

subsection \<open>Observations and concrete inputs\<close>

text \<open>
  The invocations and the pacing delays of a run, in order: one \<open>Invoke\<close> followed by one
  \<open>SDL_Delay\<close> for each iteration of the loop that ran a step.
\<close>

definition frame_marks :: "effect list \<Rightarrow> effect list" where
  "frame_marks trace =
     filter (\<lambda>e. case e of Invoke i \<Rightarrow> True | SDL_Delay ms \<Rightarrow> True | _ \<Rightarrow> False) trace"

text \<open>A context as the constructor leaves it: 800 by 480, the table empty.\<close>

definition ctx0 :: CanvasContext where
  "ctx0 = \<lparr>handle_' = 1, width_' = 800, height_' = 480, object_map_' = fmempty\<rparr>"

text \<open>The globals at process start (lines 42-45), and two backends.\<close>

definition globals_init :: globals where
  "globals_init = \<lparr>extensions_initialized = False, glDrawArraysInstanced = 0,
     glDrawElementsInstanced = 0, glVertexAttribDivisor = 0\<rparr>"

definition backend_full :: backend where
  "backend_full =
     \<lparr>ExtensionSupported = (\<lambda>name. True), GetProcAddress = (\<lambda>name. 4096 + length name)\<rparr>"

definition backend_bare :: backend where
  "backend_bare = \<lparr>ExtensionSupported = (\<lambda>name. False), GetProcAddress = (\<lambda>name. 0)\<rparr>"

text \<open>
  A replay of one step that does nothing, a resource file of 100 bytes beside the
  executable, and the environments in which one part of loading fails.
\<close>

definition nop :: StepFunction where
  "nop r = r"

definition replay0 :: Replay where
  "replay0 = Replay_ctor ''trace'' ''trace.bin'' 1"

definition blob100 :: "8 word list" where
  "blob100 = replicate 100 7"

definition env_ok :: environment where
  "env_ok = \<lparr>readlink_proc_self_exe = Some ''/opt/replay'',
     fopen = (\<lambda>path. if path = ''/opt/trace.bin'' then Some blob100 else None),
     malloc = (\<lambda>n. True)\<rparr>"

definition env_no_memory :: environment where
  "env_no_memory = env_ok\<lparr>malloc := (\<lambda>n. False)\<rparr>"

definition env_no_file :: environment where
  "env_no_file = env_ok\<lparr>fopen := (\<lambda>path. None)\<rparr>"

definition env_no_path :: environment where
  "env_no_path = env_ok\<lparr>readlink_proc_self_exe := None\<rparr>"

definition loaded100 :: Replay where
  "loaded100 = replay0\<lparr>bin_data_length_' := 100, bin_data_' := Some blob100\<rparr>"

section \<open>CanvasContext: the handle table and resizing\<close>

text \<open>
  C5. \<^verbatim>\<open>GetObject(0)\<close> returns 0, the "no object" id, on every context whatever its
  table holds, and leaves the context as it is: the table is neither read nor changed.
\<close>

theorem GetObject_zero: "GetObject c 0 = (0, c)"
  by (simp add: GetObject_def)

theorem GetObject_zero_witness: "GetObject (SetObject ctx0 0 9) 0 = (0, SetObject ctx0 0 9)"
  using GetObject_zero [of "SetObject ctx0 0 9"] by simp

text \<open>An entry of the table stays as it is under every call that is not a binding of its handle.\<close>

lemma lookup_kept_call:
  assumes "fmlookup (object_map_' c) h = Some v" and "\<forall>w. x \<noteq> Set h w"
  shows "fmlookup (object_map_' (apply_call c x)) h = Some v"
  using assms by (cases x) (auto simp: GetObject_def SetObject_def split: option.splits)

lemma lookup_kept_calls:
  assumes "fmlookup (object_map_' c) h = Some v" and "\<forall>w. Set h w \<notin> set calls"
  shows "fmlookup (object_map_' (foldl apply_call c calls)) h = Some v"
  using assms
proof (induction calls arbitrary: c)
  case Nil
  then show ?case by simp
next
  case (Cons x calls)
  have "fmlookup (object_map_' (apply_call c x)) h = Some v"
    using Cons.prems by (intro lookup_kept_call) auto
  then show ?case using Cons.IH Cons.prems(2) by simp
qed

text \<open>
  C6. For a handle \<open>h \<noteq> 0\<close>: after any calls \<open>earlier\<close>, a binding
  \<^verbatim>\<open>SetObject(h, v)\<close> and then any calls \<open>later\<close> that do not bind \<open>h\<close> again (so
  that \<open>v\<close> is the most recent binding of \<open>h\<close>), \<^verbatim>\<open>GetObject(h)\<close> returns \<open>v\<close> and
  leaves the context as it is. The calls in between may read any handle, \<open>h\<close> too, and
  bind any other handle.
\<close>

theorem GetObject_most_recent_SetObject:
  assumes "h \<noteq> 0" and "\<forall>w. Set h w \<notin> set later"
  shows "GetObject (foldl apply_call (SetObject (foldl apply_call c earlier) h v) later) h
         = (v, foldl apply_call (SetObject (foldl apply_call c earlier) h v) later)"
proof -
  let ?c = "SetObject (foldl apply_call c earlier) h v"
  have "fmlookup (object_map_' ?c) h = Some v" by (simp add: SetObject_def)
  then have "fmlookup (object_map_' (foldl apply_call ?c later)) h = Some v"
    using assms(2) by (rule lookup_kept_calls)
  then show ?thesis using assms(1) by (simp add: GetObject_def)
qed

theorem GetObject_most_recent_SetObject_witness:
  "(7::int) \<noteq> 0 \<and> (\<forall>w. Set 7 w \<notin> set [Get 7, Set 3 9, Get 4]) \<and>
   fst (GetObject (foldl apply_call (SetObject (foldl apply_call ctx0 [Set 7 1, Get 2]) 7 5)
      [Get 7, Set 3 9, Get 4]) 7) = 5"
  using GetObject_most_recent_SetObject [of 7 "[Get 7, Set 3 9, Get 4]" ctx0 "[Set 7 1, Get 2]" 5]
  by simp

text \<open>
  C7. \<^verbatim>\<open>MakeCurrent\<close> with explicit dimensions, that is with neither argument the
  default -1: when they equal the stored dimensions the only native call is the rebinding
  of the context and the object is unchanged; when they differ the window is resized, the
  viewport set to the new dimensions and both stored dimensions updated.
\<close>

theorem MakeCurrent_resize:
  assumes "width \<noteq> -1" and "height \<noteq> -1"
  shows "(width = width_' c \<and> height = height_' c \<longrightarrow>
            MakeCurrent c width height = ([SDL_GL_MakeCurrent (handle_' c)], c)) \<and>
         (width \<noteq> width_' c \<or> height \<noteq> height_' c \<longrightarrow>
            MakeCurrent c width height =
              ([SDL_GL_MakeCurrent (handle_' c),
                SDL_SetWindowSize (handle_' c) width height,
                glViewport 0 0 width height],
               c\<lparr>width_' := width, height_' := height\<rparr>))"
  using assms by (simp add: MakeCurrent_def)

theorem MakeCurrent_resize_witness:
  "(1024::int) \<noteq> -1 \<and> (480::int) \<noteq> -1 \<and>
   MakeCurrent ctx0 800 480 = ([SDL_GL_MakeCurrent 1], ctx0) \<and>
   MakeCurrent ctx0 1024 480 =
     ([SDL_GL_MakeCurrent 1, SDL_SetWindowSize 1 1024 480, glViewport 0 0 1024 480],
      ctx0\<lparr>width_' := 1024, height_' := 480\<rparr>)"
  using MakeCurrent_resize [of 1024 480 ctx0] MakeCurrent_resize [of 800 480 ctx0]
  by (simp add: ctx0_def)

text \<open>
  C10. For a handle \<open>h \<noteq> 0\<close> without an entry, \<^verbatim>\<open>GetObject(h)\<close> returns 0 and
  stores the entry \<open>h \<mapsto> 0\<close>: the table has one entry more, and a second
  \<^verbatim>\<open>GetObject(h)\<close> finds it, returns 0 again and changes nothing.
\<close>

theorem GetObject_unmapped:
  assumes "h \<noteq> 0" and "fmlookup (object_map_' c) h = None"
  shows "GetObject c h = (0, c\<lparr>object_map_' := fmupd h 0 (object_map_' c)\<rparr>) \<and>
         fmlookup (object_map_' (snd (GetObject c h))) h = Some 0 \<and>
         fcard (fmdom (object_map_' (snd (GetObject c h)))) =
           Suc (fcard (fmdom (object_map_' c))) \<and>
         GetObject (snd (GetObject c h)) h = (0, snd (GetObject c h))"
proof -
  have "h |\<notin>| fmdom (object_map_' c)" using assms(2) by (simp add: fmdom_notI)
  then show ?thesis using assms by (simp add: GetObject_def fcard_finsert_disjoint)
qed

theorem GetObject_unmapped_witness:
  "(5::int) \<noteq> 0 \<and> fmlookup (object_map_' ctx0) 5 = None \<and>
   GetObject ctx0 5 = (0, ctx0\<lparr>object_map_' := fmupd 5 0 (object_map_' ctx0)\<rparr>) \<and>
   fcard (fmdom (object_map_' (snd (GetObject ctx0 5)))) =
     Suc (fcard (fmdom (object_map_' ctx0)))"
proof -
  have h: "(5::int) \<noteq> 0" "fmlookup (object_map_' ctx0) 5 = None"
    by (simp_all add: ctx0_def)
  show ?thesis using h GetObject_unmapped [OF h] by blast
qed

section \<open>Extension bootstrap\<close>

lemma InitializeExtensions_sets_flag:
  "InitializeExtensions b g = Returns es g1 \<Longrightarrow> extensions_initialized g1"
  by (auto simp: InitializeExtensions_def Let_def split: if_splits)

lemma InitializeExtensions_calls_initialized:
  "extensions_initialized g \<Longrightarrow> InitializeExtensions_calls b n g = Returns [] g"
  by (induction n) (simp_all add: InitializeExtensions_def)

text \<open>
  C8. Once the flag is set a call of \<^verbatim>\<open>InitializeExtensions\<close> makes no native call
  and changes nothing. With the flag clear and the instanced-arrays capability missing, the
  process exits with code 1 after the queries, before any symbol is resolved. With the flag
  clear and the capability present, the call makes the queries, resolves the three symbols
  and sets the flag. And any number \<open>n > 0\<close> of calls in a row does exactly what the first
  of them does: the bootstrap runs at most once.
\<close>

theorem InitializeExtensions_once:
  "(extensions_initialized g \<longrightarrow> InitializeExtensions b g = Returns [] g) \<and>
   (\<not> extensions_initialized g \<and> \<not> ExtensionSupported b ''GL_ARB_instanced_arrays'' \<longrightarrow>
      InitializeExtensions b g =
        Exit [glGetString ''GL_VERSION'', glGetString ''GL_EXTENSIONS'',
              SDL_GL_ExtensionSupported ''GL_ARB_instanced_arrays''] 1) \<and>
   (\<not> extensions_initialized g \<and> ExtensionSupported b ''GL_ARB_instanced_arrays'' \<longrightarrow>
      InitializeExtensions b g =
        Returns [glGetString ''GL_VERSION'', glGetString ''GL_EXTENSIONS'',
                 SDL_GL_ExtensionSupported ''GL_ARB_instanced_arrays'',
                 SDL_GL_GetProcAddress ''glDrawArraysInstancedARB'',
                 SDL_GL_GetProcAddress ''glDrawElementsInstancedARB'',
                 SDL_GL_GetProcAddress ''glVertexAttribDivisorARB'']
          (g\<lparr>extensions_initialized := True,
              glDrawArraysInstanced := GetProcAddress b ''glDrawArraysInstancedARB'',
              glDrawElementsInstanced := GetProcAddress b ''glDrawElementsInstancedARB'',
              glVertexAttribDivisor := GetProcAddress b ''glVertexAttribDivisorARB''\<rparr>)) \<and>
   (0 < n \<longrightarrow> InitializeExtensions_calls b n g = InitializeExtensions b g)"
proof (intro conjI impI)
  assume "0 < n"
  then obtain m where n: "n = Suc m" by (cases n) auto
  show "InitializeExtensions_calls b n g = InitializeExtensions b g"
  proof (cases "InitializeExtensions b g")
    case (Returns es g1)
    then have "InitializeExtensions_calls b m g1 = Returns [] g1"
      by (intro InitializeExtensions_calls_initialized InitializeExtensions_sets_flag)
    with Returns show ?thesis by (simp add: n)
  next
    case (Exit es code)
    then show ?thesis by (simp add: n)
  qed
qed (simp_all add: InitializeExtensions_def)

theorem InitializeExtensions_once_witness:
  "\<not> extensions_initialized globals_init \<and>
   ExtensionSupported backend_full ''GL_ARB_instanced_arrays'' \<and>
   \<not> ExtensionSupported backend_bare ''GL_ARB_instanced_arrays'' \<and>
   (0::nat) < 3 \<and>
   InitializeExtensions_calls backend_full 3 globals_init =
     Returns [glGetString ''GL_VERSION'', glGetString ''GL_EXTENSIONS'',
              SDL_GL_ExtensionSupported ''GL_ARB_instanced_arrays'',
              SDL_GL_GetProcAddress ''glDrawArraysInstancedARB'',
              SDL_GL_GetProcAddress ''glDrawElementsInstancedARB'',
              SDL_GL_GetProcAddress ''glVertexAttribDivisorARB'']
       \<lparr>extensions_initialized = True, glDrawArraysInstanced = 4120,
        glDrawElementsInstanced = 4122, glVertexAttribDivisor = 4120\<rparr> \<and>
   InitializeExtensions backend_bare globals_init =
     Exit [glGetString ''GL_VERSION'', glGetString ''GL_EXTENSIONS'',
           SDL_GL_ExtensionSupported ''GL_ARB_instanced_arrays''] 1 \<and>
   InitializeExtensions backend_bare
      \<lparr>extensions_initialized = True, glDrawArraysInstanced = 4120,
       glDrawElementsInstanced = 4122, glVertexAttribDivisor = 4120\<rparr> =
     Returns [] \<lparr>extensions_initialized = True, glDrawArraysInstanced = 4120,
       glDrawElementsInstanced = 4122, glVertexAttribDivisor = 4120\<rparr>"
  using InitializeExtensions_once [of globals_init backend_full 3]
    InitializeExtensions_once [of globals_init backend_bare 3]
    InitializeExtensions_once [of "\<lparr>extensions_initialized = True,
       glDrawArraysInstanced = 4120, glDrawElementsInstanced = 4122,
       glVertexAttribDivisor = 4120\<rparr>" backend_bare 3]
  by (simp add: globals_init_def backend_full_def backend_bare_def)

section \<open>Replay: the resource blob\<close>

lemma length_blob100: "length blob100 = 100"
  by (simp add: blob100_def)

lemma bin_file_path_opt: "bin_file_path ''/opt/replay'' ''trace.bin'' = Inr ''/opt/trace.bin''"
  by (simp add: bin_file_path_def)

text \<open>Loading in the environment where nothing fails gives the object \<open>loaded100\<close>.\<close>

lemma LoadResources_env_ok: "LoadResources env_ok replay0 = Inr (True, loaded100)"
  by (simp add: LoadResources_def bin_file_path_opt env_ok_def replay0_def Replay_ctor_def
      loaded100_def length_blob100)

text \<open>
  The scenario of the specification: with 100 bytes loaded, a read of 20 bytes at offset 90
  gives the null pointer and a read of 10 bytes at offset 90 the last 10 bytes.
\<close>

lemma GetBinData_scenario:
  "GetBinData loaded100 90 20 = NULL \<and> GetBinData loaded100 90 10 = BinData 90 \<and>
   read_bytes loaded100 (BinData 90) 10 = Some (replicate 10 7)"
  by (simp add: GetBinData_def read_bytes_def loaded100_def length_blob100)
     (simp add: blob100_def)

text \<open>
  As long as \<open>offset + length\<close> does not exceed the range of \<^verbatim>\<open>size_t\<close>, and the
  buffer has the recorded length, \<^verbatim>\<open>GetBinData\<close> checks the bounds: the pointer is
  not null exactly when the range ends inside the blob, and the bytes behind it are those
  of the blob from \<open>offset\<close> on.
\<close>

lemma GetBinData_no_wrap:
  assumes "bin_data_' r = Some buf"
    and "length buf = unat (bin_data_length_' r)"
    and "unat offset + unat length' < 2 ^ 64"
  shows "(GetBinData r offset length' \<noteq> NULL \<longleftrightarrow>
            unat offset + unat length' \<le> unat (bin_data_length_' r)) \<and>
         (GetBinData r offset length' \<noteq> NULL \<longrightarrow>
            read_bytes r (GetBinData r offset length') (unat length') =
              Some (take (unat length') (drop (unat offset) buf)))"
proof -
  have "unat (offset + length') = unat offset + unat length'"
    using assms(3) by (simp add: unat_add_lem [THEN iffD1])
  then have "(offset + length' > bin_data_length_' r) =
             (unat offset + unat length' > unat (bin_data_length_' r))"
    by (simp add: word_less_nat_alt)
  then show ?thesis using assms(1,2) by (auto simp: GetBinData_def read_bytes_def)
qed

text \<open>
  C2 says that \<^verbatim>\<open>GetBinData(o, l)\<close> returns data if and only if \<open>o + l\<close> is at most
  the length of the blob. The sum is computed in \<^verbatim>\<open>size_t\<close> and wraps: with 100 bytes
  loaded, offset \<open>2^64 - 1\<close> and length 2 add up to 1, the check passes, and the call returns
  the pointer \<open>2^64 - 1\<close> bytes after the start of the buffer, not the null pointer, although
  \<open>o + l\<close> is far greater than 100 and no byte of the range can be read.
\<close>

theorem GetBinData_wraps:
  "GetBinData loaded100 18446744073709551615 2 = BinData 18446744073709551615 \<and>
   read_bytes loaded100 (GetBinData loaded100 18446744073709551615 2) 2 = None \<and>
   \<not> unat (18446744073709551615 :: 64 word) + unat (2 :: 64 word)
       \<le> unat (bin_data_length_' loaded100)"
  by (simp add: GetBinData_def read_bytes_def loaded100_def length_blob100)

text \<open>
  C4 as the claim states it fails when the allocation fails: \<^verbatim>\<open>bin_data_length_\<close>
  was assigned before \<^verbatim>\<open>malloc\<close> was called and keeps the size of the file, here 100
  where it was 0 before the call.
\<close>

theorem LoadResources_no_memory:
  "LoadResources env_no_memory replay0 = Inr (False, replay0\<lparr>bin_data_length_' := 100\<rparr>) \<and>
   bin_data_length_' (replay0\<lparr>bin_data_length_' := 100\<rparr>) \<noteq> bin_data_length_' replay0"
  by (simp add: LoadResources_def bin_file_path_opt env_no_memory_def env_ok_def replay0_def
      Replay_ctor_def length_blob100)

text \<open>
  C4, amended. Once the path of the resource file is formed, both failures are reported as
  \<^verbatim>\<open>false\<close>. When the file cannot be opened the object is unchanged. When the
  allocation fails \<^verbatim>\<open>bin_data_\<close> is null and \<^verbatim>\<open>bin_data_length_\<close> is the size of
  the file: no data is kept, the length is.
\<close>

theorem LoadResources_failure:
  assumes "readlink_proc_self_exe env = Some exe"
    and "bin_file_path exe (bin_name_' r) = Inr file_path"
  shows "(fopen env file_path = None \<longrightarrow> LoadResources env r = Inr (False, r)) \<and>
         (\<forall>file. fopen env file_path = Some file \<and>
                 \<not> malloc env (unat (of_nat (length file) :: 64 word)) \<longrightarrow>
            LoadResources env r =
              Inr (False, r\<lparr>bin_data_length_' := of_nat (length file), bin_data_' := None\<rparr>))"
  using assms by (simp add: LoadResources_def)

theorem LoadResources_failure_witness:
  "readlink_proc_self_exe env_no_file = Some ''/opt/replay'' \<and>
   readlink_proc_self_exe env_no_memory = Some ''/opt/replay'' \<and>
   bin_file_path ''/opt/replay'' (bin_name_' replay0) = Inr ''/opt/trace.bin'' \<and>
   fopen env_no_file ''/opt/trace.bin'' = None \<and>
   fopen env_no_memory ''/opt/trace.bin'' = Some blob100 \<and>
   \<not> malloc env_no_memory (unat (of_nat (length blob100) :: 64 word)) \<and>
   LoadResources env_no_file replay0 = Inr (False, replay0) \<and>
   LoadResources env_no_memory replay0 =
     Inr (False, replay0\<lparr>bin_data_length_' := 100, bin_data_' := None\<rparr>)"
proof -
  have p1: "readlink_proc_self_exe env_no_file = Some ''/opt/replay''"
    and p2: "readlink_proc_self_exe env_no_memory = Some ''/opt/replay''"
    by (simp_all add: env_no_file_def env_no_memory_def env_ok_def)
  have q: "bin_file_path ''/opt/replay'' (bin_name_' replay0) = Inr ''/opt/trace.bin''"
    by (simp add: replay0_def Replay_ctor_def bin_file_path_opt)
  have f1: "fopen env_no_file ''/opt/trace.bin'' = None"
    and f2: "fopen env_no_memory ''/opt/trace.bin'' = Some blob100"
    and m: "\<not> malloc env_no_memory (unat (of_nat (length blob100) :: 64 word))"
    by (simp_all add: env_no_file_def env_no_memory_def env_ok_def)
  show ?thesis
    using p1 p2 q f1 f2 m LoadResources_failure [OF p1 q] LoadResources_failure [OF p2 q]
    by (simp add: length_blob100)
qed

section \<open>Replay: the frame loop\<close>

lemma handle_event_stopped: "handle_event False event = False"
  by (simp add: handle_event_def split: SDL_EventType.splits)

lemma PollEvents_stopped: "PollEvents False events = False"
  by (induction events) (simp_all add: PollEvents_def handle_event_stopped)

lemma PollEvents_Cons:
  "PollEvents running (event # events) = PollEvents (handle_event running event) events"
  by (simp add: PollEvents_def)

text \<open>One closing event among those polled clears \<^verbatim>\<open>running\<close>, wherever it stands.\<close>

lemma PollEvents_close:
  assumes "event \<in> set events"
    and "event_type event = SDL_QUIT \<or> event_type event = SDL_WINDOWEVENT_CLOSE \<or>
         (event_type event = SDL_WINDOWEVENT \<and> window_event event = 14)"
  shows "PollEvents running events = False"
  using assms(1)
proof (induction events arbitrary: running)
  case Nil
  then show ?case by simp
next
  case (Cons x xs)
  show ?case
  proof (cases "x = event")
    case True
    then have "handle_event running x = False"
      using assms(2) by (auto simp: handle_event_def)
    then show ?thesis by (simp add: PollEvents_Cons PollEvents_stopped)
  next
    case False
    then have "event \<in> set xs" using Cons.prems by simp
    then show ?thesis by (simp add: PollEvents_Cons Cons.IH)
  qed
qed

lemma PollEvents_quiet:
  assumes "\<forall>event\<in>set events. event_type event \<noteq> SDL_QUIT \<and>
             event_type event \<noteq> SDL_WINDOWEVENT_CLOSE \<and>
             \<not> (event_type event = SDL_WINDOWEVENT \<and> window_event event = 14)"
  shows "PollEvents True events = True"
  using assms
proof (induction events)
  case Nil
  then show ?case by (simp add: PollEvents_def)
next
  case (Cons x xs)
  then have "handle_event True x = True"
    by (cases "event_type x") (auto simp: handle_event_def)
  then show ?case using Cons by (simp add: PollEvents_Cons)
qed

text \<open>
  C3. At the start of an iteration of the loop, with any effects \<open>trace\<close> so far and any
  object \<open>r\<close>: when one of the pending events is a quit event, a window-close event or a
  window event with sub-event 14, \<^verbatim>\<open>Run\<close> returns 0 with the effects and the object
  as they were. No step is invoked and no window is swapped in that iteration, and there is
  no later one.
\<close>

theorem Run_loop_close:
  assumes "event \<in> set events"
    and "event_type event = SDL_QUIT \<or> event_type event = SDL_WINDOWEVENT_CLOSE \<or>
         (event_type event = SDL_WINDOWEVENT \<and> window_event event = 14)"
  shows "Run_loop steps (events # rest) True trace r = Some (Inr (0, trace, r))"
proof -
  have "PollEvents True events = False" using assms by (rule PollEvents_close)
  then show ?thesis by (subst Run_loop.simps) simp
qed

theorem Run_loop_close_witness:
  "\<lparr>event_type = SDL_WINDOWEVENT, window_event = 14\<rparr>
     \<in> set [\<lparr>event_type = SDL_OTHER 1024, window_event = 0\<rparr>,
            \<lparr>event_type = SDL_WINDOWEVENT, window_event = 14\<rparr>,
            \<lparr>event_type = SDL_WINDOWEVENT, window_event = 3\<rparr>] \<and>
   Run_loop [nop] [[\<lparr>event_type = SDL_OTHER 1024, window_event = 0\<rparr>,
            \<lparr>event_type = SDL_WINDOWEVENT, window_event = 14\<rparr>,
            \<lparr>event_type = SDL_WINDOWEVENT, window_event = 3\<rparr>]] True [] replay0
     = Some (Inr (0, [], replay0))"
  using Run_loop_close [of "\<lparr>event_type = SDL_WINDOWEVENT, window_event = 14\<rparr>"
      "[\<lparr>event_type = SDL_OTHER 1024, window_event = 0\<rparr>,
        \<lparr>event_type = SDL_WINDOWEVENT, window_event = 14\<rparr>,
        \<lparr>event_type = SDL_WINDOWEVENT, window_event = 3\<rparr>]" "[nop]" "[]" "[]" replay0]
  by simp

lemma frame_marks_Cons:
  "frame_marks [] = []"
  "frame_marks (Invoke i # es) = Invoke i # frame_marks es"
  "frame_marks (SDL_Delay ms # es) = SDL_Delay ms # frame_marks es"
  by (simp_all add: frame_marks_def)

lemma frame_marks_Swap: "frame_marks (concat (map Swap cs)) = []"
  by (induction cs) (simp_all add: frame_marks_def Swap_def)

lemma frame_marks_append: "frame_marks (xs @ ys) = frame_marks xs @ frame_marks ys"
  by (simp add: frame_marks_def)

text \<open>
  The loop from cursor \<open>k\<close> on, for steps that leave the cursor and the step count alone,
  a step count that is the length of the array and events none of which closes: it
  returns 0 with the cursor at the length of the array, having invoked the steps
  \<open>k, k + 1, \<dots>\<close> up to the last in this order, each followed by one pacing delay.
\<close>

lemma Run_loop_full:
  assumes wb: "\<forall>s\<in>set steps. \<forall>x. step_index_' (s x) = step_index_' x \<and>
                 step_count_' (s x) = step_count_' x"
    and quiet: "\<forall>events\<in>set pending. \<forall>event\<in>set events. event_type event \<noteq> SDL_QUIT \<and>
             event_type event \<noteq> SDL_WINDOWEVENT_CLOSE \<and>
             \<not> (event_type event = SDL_WINDOWEVENT \<and> window_event event = 14)"
    and count: "step_count_' r = int (length steps)"
    and index: "step_index_' r = int k"
    and less: "k < length steps"
  shows "\<exists>trace' r'. Run_loop steps pending True trace r = Some (Inr (0, trace', r')) \<and>
           step_index_' r' = int (length steps) \<and>
           frame_marks trace' = frame_marks trace @
             concat (map (\<lambda>i. [Invoke (int i), SDL_Delay 16]) [k..<length steps])"
  using quiet count index less
proof (induction "length steps - k" arbitrary: k pending trace r)
  case 0
  then show ?case by simp
next
  case (Suc d)
  let ?events = "case pending of [] \<Rightarrow> [] | events # rest \<Rightarrow> events"
  let ?r2 = "(steps ! k) (r\<lparr>step_index_' := int k + 1\<rparr>)"
  let ?trace2 = "trace @ [Invoke (int k)] @ concat (map Swap (contexts_' ?r2)) @ [SDL_Delay 16]"
  have "\<forall>event\<in>set ?events. event_type event \<noteq> SDL_QUIT \<and>
             event_type event \<noteq> SDL_WINDOWEVENT_CLOSE \<and>
             \<not> (event_type event = SDL_WINDOWEVENT \<and> window_event event = 14)"
    using Suc.prems(1) by (cases pending) auto
  then have poll: "PollEvents True ?events = True" by (rule PollEvents_quiet)
  have in_steps: "steps ! k \<in> set steps" using Suc.prems(4) by simp
  have index2: "step_index_' ?r2 = int (Suc k)" using wb in_steps by simp
  have count2: "step_count_' ?r2 = int (length steps)"
    using wb in_steps Suc.prems(2) by simp
  have issue: "IssueNextStep steps r = Inr ([Invoke (int k)], Suc k < length steps, ?r2)"
  proof -
    have "(1 + int k < int (length steps)) = (Suc k < length steps)" by auto
    then show ?thesis
      using Suc.prems(3,4) index2 count2 by (simp add: IssueNextStep_def Let_def)
  qed
  have unfold: "Run_loop steps pending True trace r =
      Run_loop steps (tl pending) (Suc k < length steps) ?trace2 ?r2"
    by (subst Run_loop.simps) (simp add: poll issue)
  have marks2: "frame_marks ?trace2 = frame_marks trace @ [Invoke (int k), SDL_Delay 16]"
    by (simp add: frame_marks_append frame_marks_Swap frame_marks_Cons)
  have range: "[k..<length steps] = k # [Suc k..<length steps]"
    using Suc.prems(4) by (simp add: upt_conv_Cons)
  show ?case
  proof (cases "Suc k < length steps")
    case True
    have quiet2: "\<forall>events\<in>set (tl pending). \<forall>event\<in>set events.
             event_type event \<noteq> SDL_QUIT \<and>
             event_type event \<noteq> SDL_WINDOWEVENT_CLOSE \<and>
             \<not> (event_type event = SDL_WINDOWEVENT \<and> window_event event = 14)"
      using Suc.prems(1) by (cases pending) auto
    have "d = length steps - Suc k" using Suc.hyps(2) by simp
    from Suc.hyps(1) [OF this quiet2 count2 index2 True, of ?trace2]
    obtain trace' r' where
      "Run_loop steps (tl pending) True ?trace2 ?r2 = Some (Inr (0, trace', r'))"
      "step_index_' r' = int (length steps)"
      "frame_marks trace' = frame_marks ?trace2 @
         concat (map (\<lambda>i. [Invoke (int i), SDL_Delay 16]) [Suc k..<length steps])"
      by blast
    then show ?thesis using unfold True marks2 range by simp
  next
    case False
    then have last: "Suc k = length steps" using Suc.prems(4) by simp
    have "Run_loop steps (tl pending) False ?trace2 ?r2 = Some (Inr (0, ?trace2, ?r2))"
      by (subst Run_loop.simps) simp
    then show ?thesis using unfold False marks2 range index2 last by simp
  qed
qed

text \<open>
  A full run over a sequence that is not empty: it returns, the steps \<open>0, \<dots>, N - 1\<close> have
  been invoked in this order, one in each iteration, and the cursor is \<open>N\<close>.
\<close>

lemma Run_full:
  assumes "\<forall>s\<in>set steps. \<forall>x. step_index_' (s x) = step_index_' x \<and>
                 step_count_' (s x) = step_count_' x"
    and "\<forall>events\<in>set pending. \<forall>event\<in>set events. event_type event \<noteq> SDL_QUIT \<and>
             event_type event \<noteq> SDL_WINDOWEVENT_CLOSE \<and>
             \<not> (event_type event = SDL_WINDOWEVENT \<and> window_event event = 14)"
    and "step_count_' r = int (length steps)"
    and "step_index_' r = 0"
    and "0 < length steps"
  shows "\<exists>trace r'. Run steps pending r = Some (Inr (0, trace, r')) \<and>
           step_index_' r' = int (length steps) \<and>
           frame_marks trace =
             concat (map (\<lambda>i. [Invoke (int i), SDL_Delay 16]) [0..<length steps])"
  using Run_loop_full [OF assms(1,2,3), of 0 "[]"] assms(4,5)
  by (simp add: Run_def frame_marks_Cons)

text \<open>
  C1 says that a run over a sequence of length \<open>N\<close> makes exactly \<open>N\<close> invocations and ends
  with the cursor at \<open>N\<close>, for every \<open>N\<close>. For the empty sequence the loop does not do so:
  \<^verbatim>\<open>running\<close> starts as true, so with no event pending \<^verbatim>\<open>IssueNextStep\<close> is called
  before the cursor is ever compared with the step count, moves the cursor to 1 and reads
  \<^verbatim>\<open>steps_[0]\<close>, which is outside the array.
\<close>

theorem Run_empty:
  "Run [] [] (Replay_ctor ''trace'' ''trace.bin'' 0) = Some (Inl (StepOutOfRange 0))"
  by (simp add: Run_def Run_loop.simps PollEvents_def IssueNextStep_def Replay_ctor_def Let_def)

section \<open>The exit code\<close>

text \<open>When \<^verbatim>\<open>LoadResources\<close> returns false the exit code is 1.\<close>

lemma main_load_failed:
  "LoadResources env (Replay_ctor trace_name bin_name step_count) = Inr (False, r) \<Longrightarrow>
   main env trace_name bin_name steps step_count pending = Some (Inr 1)"
  by (simp add: main_def)

text \<open>
  C9 says that the exit code is 1 whenever the resource blob cannot be loaded, the failure
  to find the path of the executable included. When \<^verbatim>\<open>readlink\<close> fails,
  \<^verbatim>\<open>LoadResources\<close> leaves through \<^verbatim>\<open>return 1\<close>, which its caller receives as
  \<^verbatim>\<open>true\<close>: nothing has been loaded (\<^verbatim>\<open>bin_data_\<close> is null), \<^verbatim>\<open>main\<close> goes on
  to \<^verbatim>\<open>Run\<close>, and the exit code is 0.
\<close>

theorem main_no_path:
  "LoadResources env_no_path replay0 = Inr (True, replay0) \<and>
   bin_data_' replay0 = None \<and>
   main env_no_path ''trace'' ''trace.bin'' [nop] 1 [] = Some (Inr 0)"
  by (simp add: LoadResources_def env_no_path_def env_ok_def replay0_def Replay_ctor_def
      main_def Run_def Run_loop.simps PollEvents_def IssueNextStep_def nop_def Let_def)

end
